theory Spec2Isabelle
  imports Complex_Main
begin

section \<open>JavaScript values used by the ledger code\<close>

text \<open>
  The handlers of \<^verbatim>\<open>server.js\<close> compute with JavaScript numbers. A number is modelled
  as either \<open>NaN\<close> or a finite value, and a finite value is an exact rational: the
  rounding of IEEE doubles and the two infinities are outside the model. Every
  operator below follows the JavaScript operator it is named after; \<open>NaN\<close> propagates
  through arithmetic and makes every comparison false.
\<close>

datatype number = NaN | Num rat

fun truthy :: "number \<Rightarrow> bool" where
  "truthy NaN = False"
| "truthy (Num r) = (r \<noteq> 0)"

text \<open>\<^verbatim>\<open>x || 0\<close>\<close>

definition or_zero :: "number \<Rightarrow> number" where
  "or_zero x = (if truthy x then x else Num 0)"

fun js_add :: "number \<Rightarrow> number \<Rightarrow> number" where
  "js_add (Num a) (Num b) = Num (a + b)"
| "js_add NaN _ = NaN"
| "js_add _ NaN = NaN"

fun js_sub :: "number \<Rightarrow> number \<Rightarrow> number" where
  "js_sub (Num a) (Num b) = Num (a - b)"
| "js_sub NaN _ = NaN"
| "js_sub _ NaN = NaN"

fun js_mul :: "number \<Rightarrow> number \<Rightarrow> number" where
  "js_mul (Num a) (Num b) = Num (a * b)"
| "js_mul NaN _ = NaN"
| "js_mul _ NaN = NaN"

text \<open>
  The handlers divide by the literals 12 and 100 and by a \<open>monthlyPayment\<close> that has
  been tested truthy, so the divisor is never zero where the code divides. A zero
  divisor (an infinity or \<open>NaN\<close> in JavaScript) is mapped to \<open>NaN\<close> here.
\<close>

fun js_div :: "number \<Rightarrow> number \<Rightarrow> number" where
  "js_div (Num a) (Num b) = (if b = 0 then NaN else Num (a / b))"
| "js_div NaN _ = NaN"
| "js_div _ NaN = NaN"

fun js_le :: "number \<Rightarrow> number \<Rightarrow> bool" where
  "js_le (Num a) (Num b) = (a \<le> b)"
| "js_le NaN _ = False"
| "js_le _ NaN = False"

fun js_gt :: "number \<Rightarrow> number \<Rightarrow> bool" where
  "js_gt (Num a) (Num b) = (a > b)"
| "js_gt NaN _ = False"
| "js_gt _ NaN = False"

fun isNaN :: "number \<Rightarrow> bool" where
  "isNaN NaN = True"
| "isNaN (Num r) = False"

fun Math_max :: "number \<Rightarrow> number \<Rightarrow> number" where
  "Math_max (Num a) (Num b) = Num (max a b)"
| "Math_max NaN _ = NaN"
| "Math_max _ NaN = NaN"

fun Math_floor :: "number \<Rightarrow> number" where
  "Math_floor (Num a) = Num (of_int \<lfloor>a\<rfloor>)"
| "Math_floor NaN = NaN"


subsection \<open>Dates\<close>

text \<open>
  A \<open>Date\<close> is modelled by its local calendar fields, as \<open>getFullYear\<close>,
  \<open>getMonth\<close> (0 to 11) and \<open>getDate\<close> (1 to 31) read them, and the time within
  the day in milliseconds. Invalid dates and time zones are outside the model.
\<close>

record jsdate =
  year :: int
  month :: nat
  day :: nat
  timeInDay :: nat

definition leapYear :: "int \<Rightarrow> bool" where
  "leapYear y = (y mod 4 = 0 \<and> (y mod 100 \<noteq> 0 \<or> y mod 400 = 0))"

definition daysInMonth :: "int \<Rightarrow> nat \<Rightarrow> nat" where
  "daysInMonth y m =
     (if m = 1 then (if leapYear y then 29 else 28)
      else if m = 3 \<or> m = 5 \<or> m = 8 \<or> m = 10 then 30
      else 31)"

text \<open>
  \<open>Date.prototype.setMonth(m)\<close> keeps the day of the month and the time, and sets
  the month to \<open>m\<close>, carrying \<open>m div 12\<close> into the year. The new date is the first
  day of that month plus \<open>day - 1\<close> days, so a day that the target month does not
  have runs over into the following month (31 January set to February gives 3 March,
  or 2 March in a leap year).
\<close>

definition setMonth :: "jsdate \<Rightarrow> int \<Rightarrow> jsdate" where
  "setMonth d m =
     (let ym = year d + m div 12;
          mn = nat (m mod 12);
          dim = daysInMonth ym mn
      in if day d \<le> dim then d\<lparr>year := ym, month := mn\<rparr>
         else if mn = 11 then d\<lparr>year := ym + 1, month := 0, day := day d - dim\<rparr>
         else d\<lparr>year := ym, month := mn + 1, day := day d - dim\<rparr>)"

section \<open>The borrower document\<close>

record paymentRecord =
  pay_amount :: number
  pay_date :: jsdate
  pay_note :: string

record penaltyRecord =
  pen_amount :: number
  pen_reason :: string
  pen_date :: jsdate
  pen_type :: string

record advancePayment =
  adv_amount :: number
  monthsCovered :: number
  adv_date :: jsdate
  originalDueDate :: jsdate
  newDueDate :: jsdate

text \<open>
  The document stored in the \<open>borrowers\<close> collection. The source's field \<open>term\<close>
  is called \<open>loanTerm\<close> here and \<open>name\<close> is \<open>borrowerName\<close>.
\<close>

record borrower =
  borrowerName :: string
  contact :: string
  address :: string
  loanAmount :: number
  loanTerm :: number
  interestRate :: number
  interestType :: string
  nextDueDate :: "jsdate option"
  monthlyPayment :: number
  createdAt :: jsdate
  payments :: "paymentRecord list"
  penalties :: "penaltyRecord list"
  totalPenalties :: number
  remainingBalance :: number
  lastAdvancePayment :: "advancePayment option"

datatype error = BadRequest string | NotFound string

section \<open>Loan creation: \<open>POST /api/loans\<close>\<close>

text \<open>\<^verbatim>\<open>calculateInitialBalance\<close> of \<^verbatim>\<open>server.js\<close>, lines 133 to 150.\<close>

definition calculateInitialBalance :: "number \<Rightarrow> number \<Rightarrow> number \<Rightarrow> string \<Rightarrow> number" where
  "calculateInitialBalance loanAmt rate trm interestTy =
     (if js_le loanAmt (Num 0) \<or> js_le trm (Num 0) then loanAmt
      else
        let monthlyInterestRate =
              (if interestTy = ''annually'' then js_div rate (Num 12) else rate);
            monthlyInterest = js_mul loanAmt (js_div monthlyInterestRate (Num 100));
            totalInt = js_mul monthlyInterest trm
        in js_add loanAmt totalInt)"

text \<open>
  The request body of a creation. Each numeric field holds \<open>Number(body.field)\<close>,
  the coercion of whatever the client sent (\<open>NaN\<close> when it is not numeric); a text
  field that is missing is the empty string, which is as falsy as \<open>undefined\<close>.
\<close>

record create_body =
  c_name :: string
  c_contact :: string
  c_address :: string
  c_loanAmount :: number
  c_term :: number
  c_interestRate :: number
  c_interestType :: string
  c_nextDueDate :: "jsdate option"
  c_monthlyPayment :: number

definition or_default :: "string \<Rightarrow> string \<Rightarrow> string" where
  "or_default s d = (if s = [] then d else s)"

definition createBorrower :: "jsdate \<Rightarrow> create_body \<Rightarrow> error + borrower" where
  "createBorrower now body =
     (if c_name body = [] \<or> c_contact body = [] \<or> c_address body = []
      then Inl (BadRequest ''Missing required borrower fields.'')
      else Inr \<lparr>
        borrowerName = c_name body,
        contact = c_contact body,
        address = c_address body,
        loanAmount = or_zero (c_loanAmount body),
        loanTerm = or_zero (c_term body),
        interestRate = or_zero (c_interestRate body),
        interestType = or_default (c_interestType body) ''monthly'',
        nextDueDate = c_nextDueDate body,
        monthlyPayment = or_zero (c_monthlyPayment body),
        createdAt = now,
        payments = [],
        penalties = [],
        totalPenalties = Num 0,
        remainingBalance =
          calculateInitialBalance (or_zero (c_loanAmount body)) (or_zero (c_interestRate body))
            (or_zero (c_term body)) (or_default (c_interestType body) ''monthly''),
        lastAdvancePayment = None \<rparr>)"

section \<open>Balance recomputation shared by the \<open>PUT\<close> branches\<close>

text \<open>
  The block that the payment branch (lines 263 to 270), the penalty branch (366 to 373)
  and the borrower update branch (438 to 445) each repeat: the interest is computed
  only when both the rate and the term are truthy, and is zero otherwise.
\<close>

definition totalInterest :: "number \<Rightarrow> number \<Rightarrow> number \<Rightarrow> string \<Rightarrow> number" where
  "totalInterest loanAmt rate trm interestTy =
     (if truthy rate \<and> truthy trm then
        let monthlyInterestRate =
              (if interestTy = ''annually'' then js_div rate (Num 12) else rate);
            monthlyInterest = js_mul loanAmt (js_div monthlyInterestRate (Num 100))
        in js_mul monthlyInterest trm
      else Num 0)"

text \<open>\<^verbatim>\<open>(list || []).reduce((sum, p) => sum + (p.amount || 0), 0)\<close>\<close>

definition sumAmounts :: "number list \<Rightarrow> number" where
  "sumAmounts xs = foldl (\<lambda>acc a. js_add acc (or_zero a)) (Num 0) xs"

section \<open>Recording a payment: the \<open>body.payment\<close> branch of \<open>PUT /api/loans\<close>\<close>

text \<open>
  \<open>p_amount\<close> holds \<open>Number(body.payment.amount)\<close>, \<open>p_date\<close> the date the client
  sent (if any), \<open>p_note\<close> the note (empty when missing) and \<open>p_updateDueDate\<close> the
  truth value of \<open>body.payment.updateDueDate\<close>.
\<close>

record payment_body =
  p_amount :: number
  p_date :: "jsdate option"
  p_note :: string
  p_updateDueDate :: bool

text \<open>
  Lines 279 to 306: the due date moves only when the client asked for it, the
  borrower has a truthy monthly payment and a due date, and the payment covers at
  least one whole instalment. \<open>b\<close> is the document as read, \<open>upd\<close> the update built
  so far.
\<close>

definition advanceDueDate :: "borrower \<Rightarrow> paymentRecord \<Rightarrow> bool \<Rightarrow> borrower \<Rightarrow> borrower" where
  "advanceDueDate b paymentRec updateDueDate upd =
     (case nextDueDate b of
        None \<Rightarrow> upd
      | Some currentDueDate \<Rightarrow>
          if updateDueDate \<and> truthy (monthlyPayment b) \<and> js_gt (pay_amount paymentRec) (Num 0)
          then
            (case Math_floor (js_div (pay_amount paymentRec) (monthlyPayment b)) of
               NaN \<Rightarrow> upd
             | Num k \<Rightarrow>
                 if k \<ge> 1 then
                   let newDue = setMonth currentDueDate (int (month currentDueDate) + \<lfloor>k\<rfloor>)
                   in upd\<lparr>nextDueDate := Some newDue,
                          lastAdvancePayment := Some \<lparr>
                            adv_amount = pay_amount paymentRec,
                            monthsCovered = Num k,
                            adv_date = pay_date paymentRec,
                            originalDueDate = currentDueDate,
                            newDueDate = newDue \<rparr>\<rparr>
                 else upd)
          else upd)"

text \<open>
  Lines 238 to 333, for a borrower that was found. The result is the rejection, or
  the updated document with the balance sent back to the client.
\<close>

definition recordPayment :: "jsdate \<Rightarrow> borrower \<Rightarrow> payment_body \<Rightarrow> error + (borrower \<times> number)" where
  "recordPayment now b p =
     (let paymentRec = \<lparr>
            pay_amount = or_zero (p_amount p),
            pay_date = (case p_date p of Some d \<Rightarrow> d | None \<Rightarrow> now),
            pay_note = p_note p \<rparr>
      in
      if \<not> truthy (pay_amount paymentRec) \<or> js_le (pay_amount paymentRec) (Num 0)
      then Inl (BadRequest ''Payment amount must be greater than zero.'')
      else if js_gt (pay_amount paymentRec) (Num 999999999)
      then Inl (BadRequest ''Payment amount is too large.'')
      else if isNaN (pay_amount paymentRec)
      then Inl (BadRequest ''Payment amount must be a valid number.'')
      else
        let totalPayments =
              js_add (sumAmounts (map pay_amount (payments b))) (pay_amount paymentRec);
            totalPens = or_zero (totalPenalties b);
            loanAmt = or_zero (loanAmount b);
            totalInt = totalInterest loanAmt (interestRate b) (loanTerm b) (interestType b);
            newBalance =
              Math_max (js_sub (js_add (js_add loanAmt totalInt) totalPens) totalPayments) (Num 0);
            upd = b\<lparr>payments := payments b @ [paymentRec], remainingBalance := newBalance\<rparr>
        in Inr (advanceDueDate b paymentRec (p_updateDueDate p) upd, newBalance))"

section \<open>Recording a penalty: the \<open>body.penalty\<close> branch\<close>

record penalty_body =
  q_amount :: number
  q_reason :: string

text \<open>
  Lines 350 to 407, for a borrower that was found: the updated document, the balance
  and the penalty total sent back to the client.
\<close>

definition recordPenalty :: "jsdate \<Rightarrow> borrower \<Rightarrow> penalty_body \<Rightarrow> borrower \<times> number \<times> number" where
  "recordPenalty now b q =
     (let penaltyRec = \<lparr>
            pen_amount = or_zero (q_amount q),
            pen_reason = or_default (q_reason q) ''Penalty'',
            pen_date = now,
            pen_type = ''penalty'' \<rparr>;
          existingPenalties = sumAmounts (map pen_amount (penalties b));
          newTotalPenalties = js_add existingPenalties (pen_amount penaltyRec);
          totalPayments = sumAmounts (map pay_amount (payments b));
          loanAmt = or_zero (loanAmount b);
          totalInt = totalInterest loanAmt (interestRate b) (loanTerm b) (interestType b);
          newBalance = js_sub (js_add (js_add loanAmt totalInt) newTotalPenalties) totalPayments
      in (b\<lparr>penalties := penalties b @ [penaltyRec],
             remainingBalance := Math_max newBalance (Num 0),
             totalPenalties := newTotalPenalties\<rparr>,
          Math_max newBalance (Num 0),
          newTotalPenalties))"

section \<open>Editing a borrower: the \<open>body.borrowerUpdate\<close> branch\<close>

text \<open>
  A text field that is missing or empty is the empty string (both are falsy). A
  numeric field is \<open>None\<close> when it is \<open>undefined\<close> and otherwise holds
  \<open>Number(field)\<close>, which may be \<open>NaN\<close>.
\<close>

record update_body =
  u_name :: string
  u_contact :: string
  u_address :: string
  u_loanAmount :: "number option"
  u_term :: "number option"
  u_interestRate :: "number option"
  u_interestType :: string
  u_nextDueDate :: "jsdate option"
  u_monthlyPayment :: "number option"

text \<open>\<^verbatim>\<open>a ?? b\<close> for a field the client may have left out.\<close>

definition orElse :: "'a option \<Rightarrow> 'a \<Rightarrow> 'a" where
  "orElse x d = (case x of Some v \<Rightarrow> v | None \<Rightarrow> d)"

text \<open>Lines 415 to 424: the fields that \<open>updateFields\<close> carries, laid over the document.\<close>

definition mergeFields :: "borrower \<Rightarrow> update_body \<Rightarrow> borrower" where
  "mergeFields b u =
     b\<lparr>borrowerName := or_default (u_name u) (borrowerName b),
       contact := or_default (u_contact u) (contact b),
       address := or_default (u_address u) (address b),
       loanAmount := orElse (u_loanAmount u) (loanAmount b),
       loanTerm := orElse (u_term u) (loanTerm b),
       interestRate := orElse (u_interestRate u) (interestRate b),
       interestType := or_default (u_interestType u) (interestType b),
       nextDueDate := (case u_nextDueDate u of Some d \<Rightarrow> Some d | None \<Rightarrow> nextDueDate b),
       monthlyPayment := orElse (u_monthlyPayment u) (monthlyPayment b)\<rparr>"

text \<open>Lines 426 to 452: the balance is recomputed when a loan term is among the fields.\<close>

definition termsChanged :: "update_body \<Rightarrow> bool" where
  "termsChanged u =
     (u_loanAmount u \<noteq> None \<or> u_term u \<noteq> None \<or> u_interestRate u \<noteq> None
      \<or> u_interestType u \<noteq> [])"

definition borrowerUpdate :: "borrower \<Rightarrow> update_body \<Rightarrow> borrower" where
  "borrowerUpdate b u =
     (if termsChanged u then
        let loanAmt = orElse (u_loanAmount u) (loanAmount b);
            trm = orElse (u_term u) (loanTerm b);
            rate = orElse (u_interestRate u) (interestRate b);
            interestTy = or_default (u_interestType u) (interestType b);
            totalInt = totalInterest loanAmt rate trm interestTy;
            totalPayments = sumAmounts (map pay_amount (payments b));
            totalPens = or_zero (totalPenalties b);
            newBalance =
              Math_max (js_sub (js_add (js_add loanAmt totalInt) totalPens) totalPayments) (Num 0)
        in (mergeFields b u)\<lparr>remainingBalance := newBalance\<rparr>
      else mergeFields b u)"

section \<open>The \<open>PUT /api/loans\<close> handler over the collection\<close>

record put_body =
  payment :: "payment_body option"
  penalty :: "penalty_body option"
  borrowerUpd :: "update_body option"

datatype reply =
  PaymentAdded number
| PenaltyAdded number number
| BorrowerUpdated

type_synonym collection = "string \<rightharpoonup> borrower"

text \<open>
  Lines 215 to 467, with the database reachable: the identifier is the query's \<open>id\<close>
  (empty when missing); the first of \<open>payment\<close>, \<open>penalty\<close> and \<open>borrowerUpdate\<close>
  that the body carries decides the branch. The collection is the \<open>borrowers\<close>
  collection as a map from identifiers to documents. The answer 500, which the
  handler gives when the database is unreachable or the driver throws, changes no
  document and is outside the model.
\<close>

definition putLoans ::
  "jsdate \<Rightarrow> collection \<Rightarrow> string \<Rightarrow> put_body \<Rightarrow> (error + reply) \<times> collection" where
  "putLoans now coll ident body =
     (if ident = [] then (Inl (BadRequest ''Missing borrower id.''), coll)
      else
        case payment body of
          Some p \<Rightarrow>
            (case coll ident of
               None \<Rightarrow> (Inl (NotFound ''Borrower not found.''), coll)
             | Some b \<Rightarrow>
                 (case recordPayment now b p of
                    Inl e \<Rightarrow> (Inl e, coll)
                  | Inr (b', newBalance) \<Rightarrow> (Inr (PaymentAdded newBalance), coll(ident \<mapsto> b'))))
        | None \<Rightarrow>
            (case penalty body of
               Some q \<Rightarrow>
                 (case coll ident of
                    None \<Rightarrow> (Inl (NotFound ''Borrower not found.''), coll)
                  | Some b \<Rightarrow>
                      (case recordPenalty now b q of
                         (b', newBalance, newTotal) \<Rightarrow>
                           (Inr (PenaltyAdded newBalance newTotal), coll(ident \<mapsto> b'))))
             | None \<Rightarrow>
                 (case borrowerUpd body of
                    Some u \<Rightarrow>
                      (case coll ident of
                         None \<Rightarrow> (Inl (NotFound ''Borrower not found.''), coll)
                       | Some b \<Rightarrow> (Inr BorrowerUpdated, coll(ident \<mapsto> borrowerUpdate b u)))
                  | None \<Rightarrow> (Inl (BadRequest ''Invalid request.''), coll))))"

text \<open>
  The same dispatch on one borrower document: what a request leaves in the
  collection for the borrower it names. A rejected request leaves the document as
  it was.
\<close>

definition putBorrower :: "jsdate \<Rightarrow> borrower \<Rightarrow> put_body \<Rightarrow> borrower" where
  "putBorrower now b body =
     (case payment body of
        Some p \<Rightarrow> (case recordPayment now b p of Inl e \<Rightarrow> b | Inr (b', newBalance) \<Rightarrow> b')
      | None \<Rightarrow>
          (case penalty body of
             Some q \<Rightarrow> fst (recordPenalty now b q)
           | None \<Rightarrow>
               (case borrowerUpd body of
                  Some u \<Rightarrow> borrowerUpdate b u
                | None \<Rightarrow> b)))"

fun runRequests :: "borrower \<Rightarrow> (jsdate \<times> put_body) list \<Rightarrow> borrower" where
  "runRequests b [] = b"
| "runRequests b ((now, body) # rest) = runRequests (putBorrower now b body) rest"

section \<open>Vocabulary of the properties\<close>

subsection \<open>Invariants\<close>





text \<open>
  The running penalty total agrees with the penalty list: every amount in the list is
  a number and the total is their sum.
\<close>

definition penaltiesOk :: "borrower \<Rightarrow> bool" where
  "penaltiesOk b =
     (\<exists>xs. map pen_amount (penalties b) = map Num xs \<and> totalPenalties b = Num (sum_list xs))"

subsection \<open>The specification's wording\<close>

text \<open>
  The specification describes an operation \<open>totalInterest\<close> that returns the principal
  itself when the principal or the term is not positive, and an operation
  \<open>initialBalance\<close> that adds this value to the principal. The two definitions below
  follow those sentences; they are compared with \<open>calculateInitialBalance\<close>.
\<close>

definition spec_totalInterest :: "number \<Rightarrow> number \<Rightarrow> number \<Rightarrow> string \<Rightarrow> number" where
  "spec_totalInterest princ rate termMonths interestPeriod =
     (if js_le princ (Num 0) \<or> js_le termMonths (Num 0) then princ
      else
        let monthlyRate = (if interestPeriod = ''annually'' then js_div rate (Num 12) else rate);
            monthlyInterestAmount = js_mul princ (js_div monthlyRate (Num 100))
        in js_mul monthlyInterestAmount termMonths)"

definition spec_initialBalance :: "number \<Rightarrow> number \<Rightarrow> number \<Rightarrow> string \<Rightarrow> number" where
  "spec_initialBalance princ rate termMonths interestPeriod =
     js_add princ (spec_totalInterest princ rate termMonths interestPeriod)"



subsection \<open>Example data\<close>

text \<open>
  A borrower created on 31 January 2025 with a principal of 1000, no interest, a monthly
  payment of 200 and the first instalment due on the day of creation; and requests
  against it.
\<close>

definition exampleDate :: jsdate where
  "exampleDate = \<lparr>year = 2025, month = 0, day = 31, timeInDay = 0\<rparr>"

definition exampleBody :: create_body where
  "exampleBody = \<lparr>
     c_name = ''Ana'', c_contact = ''555-0100'', c_address = ''12 Main St'',
     c_loanAmount = Num 1000, c_term = Num 0, c_interestRate = Num 0,
     c_interestType = [], c_nextDueDate = Some exampleDate, c_monthlyPayment = Num 200\<rparr>"

definition exampleLoan :: borrower where
  "exampleLoan = \<lparr>
     borrowerName = ''Ana'', contact = ''555-0100'', address = ''12 Main St'',
     loanAmount = Num 1000, loanTerm = Num 0, interestRate = Num 0,
     interestType = ''monthly'', nextDueDate = Some exampleDate, monthlyPayment = Num 200,
     createdAt = exampleDate, payments = [], penalties = [], totalPenalties = Num 0,
     remainingBalance = Num 1000, lastAdvancePayment = None\<rparr>"

definition payRequest :: "rat \<Rightarrow> bool \<Rightarrow> payment_body" where
  "payRequest a adv = \<lparr>p_amount = Num a, p_date = None, p_note = [], p_updateDueDate = adv\<rparr>"

definition penaltyRequest :: "rat \<Rightarrow> penalty_body" where
  "penaltyRequest a = \<lparr>q_amount = Num a, q_reason = []\<rparr>"

definition noFields :: update_body where
  "noFields = \<lparr>u_name = [], u_contact = [], u_address = [], u_loanAmount = None,
     u_term = None, u_interestRate = None, u_interestType = [], u_nextDueDate = None,
     u_monthlyPayment = None\<rparr>"

definition paymentOnly :: "payment_body \<Rightarrow> put_body" where
  "paymentOnly p = \<lparr>payment = Some p, penalty = None, borrowerUpd = None\<rparr>"

definition penaltyOnly :: "penalty_body \<Rightarrow> put_body" where
  "penaltyOnly q = \<lparr>payment = None, penalty = Some q, borrowerUpd = None\<rparr>"

definition updateOnly :: "update_body \<Rightarrow> put_body" where
  "updateOnly u = \<lparr>payment = None, penalty = None, borrowerUpd = Some u\<rparr>"


definition exampleColl :: collection where
  "exampleColl = [''b1'' \<mapsto> exampleLoan]"

definition exampleEdit :: update_body where
  "exampleEdit = noFields\<lparr>u_term := Some (Num 12), u_interestRate := Some (Num 5)\<rparr>"

definition exampleRequests :: "(jsdate \<times> put_body) list" where
  "exampleRequests =
     [(exampleDate, paymentOnly (payRequest 1000 False)),
      (exampleDate, penaltyOnly (penaltyRequest 100)),
      (exampleDate, updateOnly exampleEdit),
      (exampleDate, penaltyOnly (penaltyRequest 50)),
      (exampleDate, paymentOnly (payRequest 0 False))]"

section \<open>Auxiliary lemmas\<close>

subsection \<open>Numbers and sums\<close>

lemma or_zero_Num: "or_zero (Num a) = Num a"
  by (simp add: or_zero_def)


lemma or_zero_is_Num: "\<exists>r. or_zero x = Num r"
  by (cases x) (simp_all add: or_zero_def)



lemma foldl_amounts_map_Num:
  "foldl (\<lambda>acc a. js_add acc (or_zero a)) (Num s) (map Num xs) = Num (s + sum_list xs)"
  by (induction xs arbitrary: s) (simp_all add: or_zero_Num add.assoc)

lemma sumAmounts_map_Num: "sumAmounts (map Num xs) = Num (sum_list xs)"
  unfolding sumAmounts_def using foldl_amounts_map_Num [of 0 xs] by simp





lemma js_add_zero: "js_add x (Num 0) = x"
  by (cases x) simp_all

lemma totalInterest_zero:
  "totalInterest x (Num 0) t ty = Num 0" "totalInterest x r (Num 0) ty = Num 0"
  by (simp_all add: totalInterest_def)

subsection \<open>The payment branch\<close>

lemma advanceDueDate_keeps:
  "remainingBalance (advanceDueDate b pr f upd) = remainingBalance upd \<and>
   payments (advanceDueDate b pr f upd) = payments upd \<and>
   penalties (advanceDueDate b pr f upd) = penalties upd \<and>
   totalPenalties (advanceDueDate b pr f upd) = totalPenalties upd \<and>
   loanAmount (advanceDueDate b pr f upd) = loanAmount upd \<and>
   loanTerm (advanceDueDate b pr f upd) = loanTerm upd \<and>
   interestRate (advanceDueDate b pr f upd) = interestRate upd \<and>
   interestType (advanceDueDate b pr f upd) = interestType upd"
  by (simp add: advanceDueDate_def Let_def split: option.splits number.splits)

lemma recordPayment_balance:
  assumes "recordPayment now b p = Inr (b', bal)"
  shows "remainingBalance b' = bal \<and> bal =
     Math_max (js_sub (js_add (js_add (or_zero (loanAmount b))
        (totalInterest (or_zero (loanAmount b)) (interestRate b) (loanTerm b) (interestType b)))
        (or_zero (totalPenalties b)))
        (js_add (sumAmounts (map pay_amount (payments b))) (or_zero (p_amount p)))) (Num 0)"
  using assms by (auto simp add: recordPayment_def Let_def advanceDueDate_keeps split: if_splits)


lemma recordPayment_accepts_iff:
  "(\<exists>b' bal. recordPayment now b p = Inr (b', bal)) \<longleftrightarrow>
     (\<exists>a. p_amount p = Num a \<and> 0 < a \<and> a \<le> 999999999)"
proof (cases "p_amount p")
  case NaN
  then show ?thesis by (simp add: recordPayment_def or_zero_def)
next
  case (Num a)
  then show ?thesis by (auto simp add: recordPayment_def or_zero_def Let_def)
qed

lemma putLoans_rejected_unchanged:
  "fst (putLoans now coll ident body) = Inl e \<Longrightarrow> snd (putLoans now coll ident body) = coll"
  by (auto simp add: putLoans_def split: if_splits option.splits sum.splits prod.splits)


lemma recordPayment_keeps_penalties:
  "recordPayment now b p = Inr (b', bal) \<Longrightarrow>
     totalPenalties b' = totalPenalties b \<and> penalties b' = penalties b"
  by (auto simp add: recordPayment_def Let_def advanceDueDate_keeps split: if_splits)

subsection \<open>The due date\<close>






subsection \<open>The penalty branch\<close>



lemma recordPenalty_penalties:
  "totalPenalties (fst (recordPenalty now b q))
     = js_add (sumAmounts (map pen_amount (penalties b))) (or_zero (q_amount q)) \<and>
   map pen_amount (penalties (fst (recordPenalty now b q)))
     = map pen_amount (penalties b) @ [or_zero (q_amount q)]"
  by (simp add: recordPenalty_def Let_def)

lemma recordPenalty_penaltiesOk:
  assumes "penaltiesOk b"
  shows "penaltiesOk (fst (recordPenalty now b q))"
proof -
  from assms obtain xs where xs: "map pen_amount (penalties b) = map Num xs"
    by (auto simp add: penaltiesOk_def)
  obtain c where c: "or_zero (q_amount q) = Num c" using or_zero_is_Num by blast
  have "map pen_amount (penalties (fst (recordPenalty now b q))) = map Num (xs @ [c])"
    using recordPenalty_penalties [of now b q] by (simp add: xs c)
  moreover have "totalPenalties (fst (recordPenalty now b q)) = Num (sum_list (xs @ [c]))"
    using recordPenalty_penalties [of now b q] by (simp add: xs c sumAmounts_map_Num)
  ultimately show ?thesis unfolding penaltiesOk_def by blast
qed

subsection \<open>The borrower update branch\<close>





lemma borrowerUpdate_keeps_penalties:
  "totalPenalties (borrowerUpdate b u) = totalPenalties b \<and>
   penalties (borrowerUpdate b u) = penalties b"
  by (simp add: borrowerUpdate_def Let_def mergeFields_def)

subsection \<open>Creation and sequences of requests\<close>






lemma putBorrower_penaltiesOk:
  assumes ok: "penaltiesOk b"
  shows "penaltiesOk (putBorrower now b body)"
proof (cases "payment body")
  case (Some p)
  show ?thesis
  proof (cases "recordPayment now b p")
    case (Inl e)
    with Some ok show ?thesis by (simp add: putBorrower_def)
  next
    case (Inr r)
    obtain b' bal where r: "r = (b', bal)" by (cases r)
    from Inr r have "totalPenalties b' = totalPenalties b \<and> penalties b' = penalties b"
      using recordPayment_keeps_penalties by blast
    with Some Inr r ok show ?thesis by (simp add: putBorrower_def penaltiesOk_def)
  qed
next
  case None
  note noPay = None
  show ?thesis
  proof (cases "penalty body")
    case (Some q)
    with noPay recordPenalty_penaltiesOk [OF ok, of now q] show ?thesis
      by (simp add: putBorrower_def)
  next
    case None
    with noPay ok show ?thesis
      by (cases "borrowerUpd body")
        (simp_all add: putBorrower_def penaltiesOk_def borrowerUpdate_keeps_penalties)
  qed
qed

lemma runRequests_penaltiesOk: "penaltiesOk b \<Longrightarrow> penaltiesOk (runRequests b reqs)"
proof (induction reqs arbitrary: b)
  case Nil
  then show ?case by simp
next
  case (Cons r reqs)
  obtain now body where r: "r = (now, body)" by (cases r)
  show ?case using Cons.IH [OF putBorrower_penaltiesOk [OF Cons.prems, of now body]]
    by (simp add: r)
qed

lemma createBorrower_penalties:
  "createBorrower now body = Inr b0 \<Longrightarrow> totalPenalties b0 = Num 0 \<and> penalties b0 = []"
  by (auto simp add: createBorrower_def split: if_splits)

subsection \<open>The stored balance is the recomputed balance\<close>










subsection \<open>The example borrower\<close>

lemma createBorrower_example: "createBorrower exampleDate exampleBody = Inr exampleLoan"
  by (simp add: createBorrower_def exampleBody_def exampleLoan_def or_zero_def or_default_def
      calculateInitialBalance_def)


section \<open>The claims\<close>





text \<open>
  Claim C3. For a positive principal and a positive term the interest is
  \<open>principal * (monthlyRate / 100) * term\<close>, the monthly rate being the rate divided
  by 12 for an annual rate and the rate itself otherwise; this holds for the interest
  recomputed by the \<open>PUT\<close> branches and for the interest that
  \<open>calculateInitialBalance\<close> adds to the principal. A principal of 10000 at 5 per
  month over 12 months gives interest 6000 and balance 16000; 1000 at 12 per year over
  6 months gives interest 60.
\<close>

theorem interest_formula:
  "0 < p \<Longrightarrow> 0 < t \<Longrightarrow>
     totalInterest (Num p) (Num r) (Num t) ty
       = Num (p * ((if ty = ''annually'' then r / 12 else r) / 100) * t) \<and>
     calculateInitialBalance (Num p) (Num r) (Num t) ty
       = Num (p + p * ((if ty = ''annually'' then r / 12 else r) / 100) * t) \<and>
     totalInterest (Num 10000) (Num 5) (Num 12) ''monthly'' = Num 6000 \<and>
     calculateInitialBalance (Num 10000) (Num 5) (Num 12) ''monthly'' = Num 16000 \<and>
     totalInterest (Num 1000) (Num 12) (Num 6) ''annually'' = Num 60"
  by (simp add: totalInterest_def calculateInitialBalance_def)

theorem interest_formula_witness:
  "totalInterest (Num 2000) (Num 6) (Num 3) ''annually'' = Num 30 \<and>
   calculateInitialBalance (Num 2000) (Num 6) (Num 3) ''annually'' = Num 2030"
  using interest_formula [of 2000 3 6 "''annually''"] by simp

text \<open>
  Claim C4, as stated, fails. With principal 500, rate 10 and term 0 the created
  borrower stores the balance 500, while the principal plus the specification's
  \<open>totalInterest\<close> (which is 500 there) is 1000.
\<close>

theorem degenerate_counterexample:
  "createBorrower exampleDate (exampleBody\<lparr>c_loanAmount := Num 500, c_interestRate := Num 10\<rparr>)
     = Inr (exampleLoan\<lparr>loanAmount := Num 500, interestRate := Num 10,
              remainingBalance := Num 500\<rparr>) \<and>
   spec_totalInterest (Num 500) (Num 10) (Num 0) ''monthly'' = Num 500 \<and>
   spec_initialBalance (Num 500) (Num 10) (Num 0) ''monthly'' = Num 1000 \<and>
   calculateInitialBalance (Num 500) (Num 10) (Num 0) ''monthly''
     \<noteq> spec_initialBalance (Num 500) (Num 10) (Num 0) ''monthly''"
  by (simp add: createBorrower_def exampleBody_def exampleLoan_def or_zero_def or_default_def
      calculateInitialBalance_def spec_totalInterest_def spec_initialBalance_def)

text \<open>
  Claim C4, amended. It is \<open>calculateInitialBalance\<close>, the initial balance, that
  returns the principal unchanged when the principal or the term is not positive: no
  interest is added and the principal is counted once (500 for principal 500, rate 10,
  term 0). Otherwise it returns the principal plus the interest. On creation this
  value is stored as the remaining balance, with no payments and no penalties.
\<close>

theorem initial_balance_degenerate:
  "(js_le p (Num 0) \<or> js_le t (Num 0) \<longrightarrow> calculateInitialBalance p r t ty = p) \<and>
   (\<not> (js_le p (Num 0) \<or> js_le t (Num 0)) \<longrightarrow>
      calculateInitialBalance p r t ty =
        js_add p (js_mul (js_mul p
          (js_div (if ty = ''annually'' then js_div r (Num 12) else r) (Num 100))) t)) \<and>
   calculateInitialBalance (Num 500) (Num 10) (Num 0) ty = Num 500 \<and>
   (createBorrower now body = Inr b \<longrightarrow>
      payments b = [] \<and> penalties b = [] \<and>
      remainingBalance b =
        calculateInitialBalance (loanAmount b) (interestRate b) (loanTerm b) (interestType b))"
  by (auto simp add: calculateInitialBalance_def createBorrower_def Let_def split: if_splits)

theorem initial_balance_degenerate_witness:
  "calculateInitialBalance (Num (- 7)) (Num 3) (Num 4) ''monthly'' = Num (- 7) \<and>
   calculateInitialBalance (Num 8) (Num 50) (Num 2) ''monthly'' = Num 16 \<and>
   remainingBalance exampleLoan = calculateInitialBalance (Num 1000) (Num 0) (Num 0) ''monthly''"
  using initial_balance_degenerate [of "Num (- 7)" "Num 4" "Num 3" "''monthly''" exampleDate
      exampleBody exampleLoan]
    initial_balance_degenerate [of "Num 8" "Num 2" "Num 50" "''monthly''" exampleDate
      exampleBody exampleLoan]
    createBorrower_example
  by (simp add: exampleLoan_def)

text \<open>
  Claim C5. The payment branch accepts an amount exactly when it is a number \<open>a\<close>
  with \<open>0 < a \<le> 999999999\<close>. The amounts -5, 0, \<open>NaN\<close> and 2000000000 are each
  rejected with a 400 answer, and a rejected \<open>PUT\<close> request (this one or any other)
  leaves the collection as it was.
\<close>

theorem payment_validation:
  "((\<exists>b' bal. recordPayment now b p = Inr (b', bal)) \<longleftrightarrow>
      (\<exists>a. p_amount p = Num a \<and> 0 < a \<and> a \<le> 999999999)) \<and>
   (p_amount p = Num (- 5) \<or> p_amount p = Num 0 \<or> p_amount p = NaN \<or>
    p_amount p = Num 2000000000 \<longrightarrow>
      (\<exists>msg. recordPayment now b p = Inl (BadRequest msg))) \<and>
   (payment body = Some p \<and> recordPayment now b p = Inl e \<and> coll ident = Some b \<and> ident \<noteq> []
      \<longrightarrow> putLoans now coll ident body = (Inl e, coll)) \<and>
   (\<forall>e'. fst (putLoans now coll ident body) = Inl e' \<longrightarrow>
      snd (putLoans now coll ident body) = coll)"
proof -
  have "p_amount p = Num (- 5) \<or> p_amount p = Num 0 \<or> p_amount p = NaN \<or>
    p_amount p = Num 2000000000 \<longrightarrow>
      (\<exists>msg. recordPayment now b p = Inl (BadRequest msg))"
    by (auto simp add: recordPayment_def or_zero_def Let_def)
  moreover have "payment body = Some p \<and> recordPayment now b p = Inl e \<and> coll ident = Some b
      \<and> ident \<noteq> [] \<longrightarrow> putLoans now coll ident body = (Inl e, coll)"
    by (simp add: putLoans_def)
  ultimately show ?thesis
    using recordPayment_accepts_iff [of now b p] putLoans_rejected_unchanged [of now coll ident body]
    by blast
qed

theorem payment_validation_witness:
  "(\<exists>b' bal. recordPayment exampleDate exampleLoan (payRequest 250 False) = Inr (b', bal)) \<and>
   (\<exists>msg. recordPayment exampleDate exampleLoan (payRequest (- 5) False) = Inl (BadRequest msg)) \<and>
   (\<exists>msg. putLoans exampleDate exampleColl ''b1'' (paymentOnly (payRequest (- 5) False))
      = (Inl (BadRequest msg), exampleColl))"
proof -
  note v1 = payment_validation [where now = exampleDate and b = exampleLoan
      and p = "payRequest 250 False" and body = "paymentOnly (payRequest 250 False)"
      and e = "BadRequest []" and coll = exampleColl and ident = "''b1''"]
  have ok: "\<exists>b' bal. recordPayment exampleDate exampleLoan (payRequest 250 False) = Inr (b', bal)"
    using v1 by (simp add: payRequest_def)
  have "\<exists>msg. recordPayment exampleDate exampleLoan (payRequest (- 5) False)
      = Inl (BadRequest msg)"
    using payment_validation [where now = exampleDate and b = exampleLoan
      and p = "payRequest (- 5) False" and body = "paymentOnly (payRequest (- 5) False)"
      and e = "BadRequest []" and coll = exampleColl and ident = "''b1''"]
    by (simp add: payRequest_def)
  then obtain msg where
    rej: "recordPayment exampleDate exampleLoan (payRequest (- 5) False) = Inl (BadRequest msg)"
    by blast
  have "putLoans exampleDate exampleColl ''b1'' (paymentOnly (payRequest (- 5) False))
      = (Inl (BadRequest msg), exampleColl)"
    using payment_validation [where now = exampleDate and b = exampleLoan
      and p = "payRequest (- 5) False" and body = "paymentOnly (payRequest (- 5) False)"
      and e = "BadRequest msg" and coll = exampleColl and ident = "''b1''"] rej
    by (simp add: paymentOnly_def exampleColl_def)
  with ok rej show ?thesis by blast
qed








text \<open>
  Claim C9. A created borrower has the penalty total 0 and no penalties, and after any
  sequence of \<open>PUT\<close> requests the penalty total is the sum of the amounts in the
  penalty list. A penalty sets the total to the sum of the list plus the new amount and
  appends that amount; a payment and a borrower update change neither the total nor
  the list.
\<close>

theorem totalPenalties_is_sum:
  assumes "createBorrower now0 body = Inr b0"
  shows "totalPenalties b0 = Num 0 \<and> penalties b0 = [] \<and>
    (\<exists>xs. map pen_amount (penalties (runRequests b0 reqs)) = map Num xs \<and>
          totalPenalties (runRequests b0 reqs) = Num (sum_list xs)) \<and>
    totalPenalties (fst (recordPenalty now b q))
      = js_add (sumAmounts (map pen_amount (penalties b))) (or_zero (q_amount q)) \<and>
    map pen_amount (penalties (fst (recordPenalty now b q)))
      = map pen_amount (penalties b) @ [or_zero (q_amount q)] \<and>
    (\<forall>b' bal. recordPayment now b p = Inr (b', bal) \<longrightarrow>
       totalPenalties b' = totalPenalties b \<and> penalties b' = penalties b) \<and>
    totalPenalties (borrowerUpdate b u) = totalPenalties b \<and>
    penalties (borrowerUpdate b u) = penalties b"
proof -
  have "penaltiesOk b0"
    using createBorrower_penalties [OF assms] by (simp add: penaltiesOk_def)
  then have "penaltiesOk (runRequests b0 reqs)" by (rule runRequests_penaltiesOk)
  then show ?thesis
    using createBorrower_penalties [OF assms] recordPenalty_penalties [of now b q]
      recordPayment_keeps_penalties [of now b p] borrowerUpdate_keeps_penalties [of b u]
    unfolding penaltiesOk_def by blast
qed

theorem totalPenalties_is_sum_witness:
  "totalPenalties exampleLoan = Num 0 \<and>
   (\<exists>xs. map pen_amount (penalties (runRequests exampleLoan exampleRequests)) = map Num xs \<and>
      totalPenalties (runRequests exampleLoan exampleRequests) = Num (sum_list xs))"
  using totalPenalties_is_sum [OF createBorrower_example, of exampleRequests]
  by blast

text \<open>
  Claim C10. The interest recomputed by the \<open>PUT\<close> branches is 0 when the rate or the
  term is zero. So with a zero rate or term the payment branch, the penalty branch and
  the borrower update branch (on the merged terms) all store
  \<open>max 0 (principal + penalties - payments)\<close>: the principal is counted once.
\<close>

theorem zero_rate_or_term_no_interest:
  "totalInterest x (Num 0) t ty = Num 0 \<and>
   totalInterest x r (Num 0) ty = Num 0 \<and>
   (interestRate b = Num 0 \<or> loanTerm b = Num 0 \<longrightarrow>
      (\<forall>b' bal. recordPayment now b p = Inr (b', bal) \<longrightarrow>
         remainingBalance b' =
           Math_max (js_sub (js_add (or_zero (loanAmount b)) (or_zero (totalPenalties b)))
             (js_add (sumAmounts (map pay_amount (payments b))) (p_amount p))) (Num 0)) \<and>
      remainingBalance (fst (recordPenalty now b q)) =
        Math_max (js_sub (js_add (or_zero (loanAmount b))
            (totalPenalties (fst (recordPenalty now b q))))
          (sumAmounts (map pay_amount (payments b)))) (Num 0)) \<and>
   (termsChanged u \<and>
    (interestRate (borrowerUpdate b u) = Num 0 \<or> loanTerm (borrowerUpdate b u) = Num 0) \<longrightarrow>
      remainingBalance (borrowerUpdate b u) =
        Math_max (js_sub (js_add (loanAmount (borrowerUpdate b u)) (or_zero (totalPenalties b)))
          (sumAmounts (map pay_amount (payments b)))) (Num 0))"
proof -
  have pay: "interestRate b = Num 0 \<or> loanTerm b = Num 0 \<Longrightarrow>
      recordPayment now b p = Inr (b', bal) \<Longrightarrow>
         remainingBalance b' =
           Math_max (js_sub (js_add (or_zero (loanAmount b)) (or_zero (totalPenalties b)))
             (js_add (sumAmounts (map pay_amount (payments b))) (p_amount p))) (Num 0)" for b' bal
  proof -
    assume z: "interestRate b = Num 0 \<or> loanTerm b = Num 0"
      and r: "recordPayment now b p = Inr (b', bal)"
    from r have "or_zero (p_amount p) = p_amount p"
      by (cases "p_amount p") (simp_all add: recordPayment_def or_zero_def)
    moreover from z have
      "totalInterest (or_zero (loanAmount b)) (interestRate b) (loanTerm b) (interestType b) = Num 0"
      using totalInterest_zero by auto
    ultimately show ?thesis using recordPayment_balance [OF r] by (simp add: js_add_zero)
  qed
  have pen: "interestRate b = Num 0 \<or> loanTerm b = Num 0 \<Longrightarrow>
      remainingBalance (fst (recordPenalty now b q)) =
        Math_max (js_sub (js_add (or_zero (loanAmount b))
            (totalPenalties (fst (recordPenalty now b q))))
          (sumAmounts (map pay_amount (payments b)))) (Num 0)"
  proof -
    assume z: "interestRate b = Num 0 \<or> loanTerm b = Num 0"
    then have
      "totalInterest (or_zero (loanAmount b)) (interestRate b) (loanTerm b) (interestType b) = Num 0"
      using totalInterest_zero by auto
    then show ?thesis by (simp add: recordPenalty_def Let_def js_add_zero)
  qed
  have upd: "termsChanged u \<Longrightarrow>
      interestRate (borrowerUpdate b u) = Num 0 \<or> loanTerm (borrowerUpdate b u) = Num 0 \<Longrightarrow>
      remainingBalance (borrowerUpdate b u) =
        Math_max (js_sub (js_add (loanAmount (borrowerUpdate b u)) (or_zero (totalPenalties b)))
          (sumAmounts (map pay_amount (payments b)))) (Num 0)"
  proof -
    assume c: "termsChanged u"
      and z: "interestRate (borrowerUpdate b u) = Num 0 \<or> loanTerm (borrowerUpdate b u) = Num 0"
    from z have "orElse (u_interestRate u) (interestRate b) = Num 0 \<or>
        orElse (u_term u) (loanTerm b) = Num 0"
      by (simp add: borrowerUpdate_def Let_def mergeFields_def split: if_splits)
    then have "totalInterest (orElse (u_loanAmount u) (loanAmount b))
        (orElse (u_interestRate u) (interestRate b)) (orElse (u_term u) (loanTerm b))
        (or_default (u_interestType u) (interestType b)) = Num 0"
      using totalInterest_zero by auto
    then show ?thesis using c
      by (simp add: borrowerUpdate_def Let_def js_add_zero mergeFields_def)
  qed
  show ?thesis using pay pen upd totalInterest_zero by blast
qed

theorem zero_rate_or_term_no_interest_witness:
  "remainingBalance (fst (recordPenalty exampleDate exampleLoan (penaltyRequest 30))) = Num 1030 \<and>
   remainingBalance (borrowerUpdate exampleLoan (noFields\<lparr>u_loanAmount := Some (Num 400)\<rparr>))
     = Num 400"
  using zero_rate_or_term_no_interest [of _ _ _ _ exampleLoan exampleDate _
      "penaltyRequest 30" "noFields\<lparr>u_loanAmount := Some (Num 400)\<rparr>"]
  by (simp add: exampleLoan_def recordPenalty_def penaltyRequest_def or_zero_def sumAmounts_def
      noFields_def termsChanged_def borrowerUpdate_def mergeFields_def orElse_def or_default_def
      Let_def)

end
